theory Spec2Isabelle
  imports Main
begin

section \<open>Python values and the built-ins the notifier uses\<close>

text \<open>
  The notifier (\<^verbatim>\<open>steam_to_discord.py\<close>) keeps every snapshot as a \<^verbatim>\<open>Dict[str, Any]\<close> whose
  values come from decoded JSON. A value is therefore one of the JSON shapes; a dictionary
  is an association list in insertion order, looked up with \<open>map_of\<close> (its keys are taken
  to be distinct, as the keys of a Python dictionary are). JSON floats are left out: no
  field the notifier reads is ever produced as a float. A Python \<^verbatim>\<open>str\<close> is a \<open>string\<close>;
  characters outside ASCII are carried as their UTF-8 bytes and are left alone by
  \<open>str_lower\<close>.
\<close>

datatype jval =
    JNull
  | JBool bool
  | JInt int
  | JStr string
  | JList "jval list"
  | JDict "(string \<times> jval) list"

text \<open>Every exception the program can raise is a value.\<close>

datatype error =
    KeyError
  | TypeError
  | ValueError
  | AttributeError
  | IndexError
  | RuntimeError
  | HTTPError
  | RequestException
  | JSONDecodeError
  | OSError
  | SystemExit string

type_synonym 'a result = "error + 'a"

definition bnd :: "'a result \<Rightarrow> ('a \<Rightarrow> 'b result) \<Rightarrow> 'b result" where
  "bnd m f = (case m of Inl e \<Rightarrow> Inl e | Inr v \<Rightarrow> f v)"

text \<open>Truth value of \<^verbatim>\<open>bool(v)\<close>, \<^verbatim>\<open>if v\<close>, \<^verbatim>\<open>v or w\<close>.\<close>

fun py_bool :: "jval \<Rightarrow> bool" where
  "py_bool JNull = False"
| "py_bool (JBool b) = b"
| "py_bool (JInt n) = (n \<noteq> 0)"
| "py_bool (JStr s) = (s \<noteq> [])"
| "py_bool (JList xs) = (xs \<noteq> [])"
| "py_bool (JDict kvs) = (kvs \<noteq> [])"

text \<open>\<^verbatim>\<open>d.get(k, dflt)\<close>: only a dictionary has the method.\<close>

fun py_get :: "jval \<Rightarrow> string \<Rightarrow> jval \<Rightarrow> jval result" where
  "py_get (JDict kvs) k dflt = Inr (case map_of kvs k of None \<Rightarrow> dflt | Some v \<Rightarrow> v)"
| "py_get _ k dflt = Inl AttributeError"

text \<open>\<^verbatim>\<open>d[k]\<close> with a string key: \<^verbatim>\<open>KeyError\<close> on a dictionary without the key,
  \<^verbatim>\<open>TypeError\<close> on every other value.\<close>

fun py_item :: "jval \<Rightarrow> string \<Rightarrow> jval result" where
  "py_item (JDict kvs) k = (case map_of kvs k of None \<Rightarrow> Inl KeyError | Some v \<Rightarrow> Inr v)"
| "py_item _ k = Inl TypeError"

subsection \<open>\<^verbatim>\<open>int(v)\<close>\<close>

definition is_space :: "char \<Rightarrow> bool" where
  "is_space c = (c \<in> set [CHR '' '', CHR 0x09, CHR 0x0A, CHR 0x0B, CHR 0x0C, CHR 0x0D,
                           CHR 0x1C, CHR 0x1D, CHR 0x1E, CHR 0x1F])"

definition strip :: "string \<Rightarrow> string" where
  "strip s = rev (dropWhile is_space (rev (dropWhile is_space s)))"

definition digit_val :: "char \<Rightarrow> nat option" where
  "digit_val c = map_of (zip ''0123456789'' [0, 1, 2, 3, 4, 5, 6, 7, 8, 9]) c"

text \<open>The digits after the first one; a single underscore may sit between two digits.\<close>

fun more_digits :: "nat \<Rightarrow> string \<Rightarrow> nat option" where
  "more_digits acc [] = Some acc"
| "more_digits acc [c] =
     (case digit_val c of None \<Rightarrow> None | Some v \<Rightarrow> Some (10 * acc + v))"
| "more_digits acc (c # d # ds) =
     (if c = CHR ''_''
      then (case digit_val d of None \<Rightarrow> None | Some v \<Rightarrow> more_digits (10 * acc + v) ds)
      else (case digit_val c of None \<Rightarrow> None | Some v \<Rightarrow> more_digits (10 * acc + v) (d # ds)))"

definition parse_nat :: "string \<Rightarrow> nat option" where
  "parse_nat s =
     (case s of [] \<Rightarrow> None
      | c # cs \<Rightarrow> (case digit_val c of None \<Rightarrow> None | Some v \<Rightarrow> more_digits v cs))"

definition parse_int :: "string \<Rightarrow> int option" where
  "parse_int s =
     (case strip s of [] \<Rightarrow> None
      | c # cs \<Rightarrow>
          if c = CHR ''-'' then map_option (\<lambda>n. - int n) (parse_nat cs)
          else if c = CHR ''+'' then map_option int (parse_nat cs)
          else map_option int (parse_nat (c # cs)))"

fun py_int :: "jval \<Rightarrow> int result" where
  "py_int (JInt n) = Inr n"
| "py_int (JBool b) = Inr (if b then 1 else 0)"
| "py_int (JStr s) = (case parse_int s of None \<Rightarrow> Inl ValueError | Some n \<Rightarrow> Inr n)"
| "py_int _ = Inl TypeError"

subsection \<open>\<^verbatim>\<open>s.lower()\<close>\<close>

definition lower_char :: "char \<Rightarrow> char" where
  "lower_char c =
     (case map_of (zip ''ABCDEFGHIJKLMNOPQRSTUVWXYZ'' ''abcdefghijklmnopqrstuvwxyz'') c of
        None \<Rightarrow> c | Some l \<Rightarrow> l)"

definition str_lower :: "string \<Rightarrow> string" where
  "str_lower s = map lower_char s"

text \<open>The method call \<^verbatim>\<open>v.lower()\<close>: only a \<^verbatim>\<open>str\<close> has it.\<close>

fun py_lower :: "jval \<Rightarrow> string result" where
  "py_lower (JStr s) = Inr (str_lower s)"
| "py_lower _ = Inl AttributeError"

subsection \<open>\<^verbatim>\<open>str(v)\<close> and \<^verbatim>\<open>repr(v)\<close>, as f-strings use them\<close>

fun show_nat :: "nat \<Rightarrow> string" where
  "show_nat n =
     (if n < 10 then [''0123456789'' ! n]
      else show_nat (n div 10) @ [''0123456789'' ! (n mod 10)])"

declare show_nat.simps [simp del]

definition show_int :: "int \<Rightarrow> string" where
  "show_int i = (if i < 0 then CHR ''-'' # show_nat (nat (- i)) else show_nat (nat i))"

definition join :: "string \<Rightarrow> string list \<Rightarrow> string" where
  "join sep xs = (case xs of [] \<Rightarrow> [] | y # ys \<Rightarrow> y @ concat (map (\<lambda>z. sep @ z) ys))"

text \<open>
  \<^verbatim>\<open>repr\<close> of a string: single quotes unless the string holds a single quote and no
  double quote; the quote and the backslash are escaped, control characters are written
  \<^verbatim>\<open>\t\<close>, \<^verbatim>\<open>\n\<close>, \<^verbatim>\<open>\r\<close> or \<^verbatim>\<open>\xhh\<close>.
\<close>

definition repr_quote :: "string \<Rightarrow> char" where
  "repr_quote s = (if CHR 0x27 \<in> set s \<and> CHR 0x22 \<notin> set s then CHR 0x22 else CHR 0x27)"

definition repr_char :: "char \<Rightarrow> char \<Rightarrow> string" where
  "repr_char q c =
     (if c = q \<or> c = CHR 0x5C then [CHR 0x5C, c]
      else if c = CHR 0x09 then [CHR 0x5C, CHR ''t'']
      else if c = CHR 0x0A then [CHR 0x5C, CHR ''n'']
      else if c = CHR 0x0D then [CHR 0x5C, CHR ''r'']
      else if (of_char c :: nat) < 32 \<or> c = CHR 0x7F
        then [CHR 0x5C, CHR ''x'', ''0123456789abcdef'' ! (of_char c div 16),
              ''0123456789abcdef'' ! (of_char c mod 16)]
      else [c])"

definition repr_str :: "string \<Rightarrow> string" where
  "repr_str s = (let q = repr_quote s in q # concat (map (repr_char q) s) @ [q])"

primrec py_repr :: "jval \<Rightarrow> string" where
  "py_repr JNull = ''None''"
| "py_repr (JBool b) = (if b then ''True'' else ''False'')"
| "py_repr (JInt n) = show_int n"
| "py_repr (JStr s) = repr_str s"
| "py_repr (JList xs) = ''['' @ join '', '' (map py_repr xs) @ '']''"
| "py_repr (JDict kvs) =
     ''{'' @ join '', '' (map (\<lambda>kv. repr_str (fst kv) @ '': '' @ snd kv)
                             (map (map_prod id py_repr) kvs)) @ ''}''"

text \<open>What \<^verbatim>\<open>f"{v}"\<close> inserts: a string as it is, anything else as its \<^verbatim>\<open>repr\<close>.\<close>

definition py_str :: "jval \<Rightarrow> string" where
  "py_str v = (case v of JStr s \<Rightarrow> s | _ \<Rightarrow> py_repr v)"

text \<open>\<^verbatim>\<open>xs[0]\<close>\<close>

fun py_first :: "jval \<Rightarrow> jval result" where
  "py_first (JList (x # xs)) = Inr x"
| "py_first (JList []) = Inl IndexError"
| "py_first (JStr (c # cs)) = Inr (JStr [c])"
| "py_first (JStr []) = Inl IndexError"
| "py_first (JDict kvs) = Inl KeyError"
| "py_first _ = Inl TypeError"

section \<open>Configuration\<close>

text \<open>The module-level constants, read once from the environment at import time.\<close>

record config =
  STEAM_API_KEY :: string
  STEAM_FRIEND_ID64 :: string
  DISCORD_WEBHOOK_URL :: string
  DISCORD_USER_ID :: string
  POLL_SECONDS :: int
  BOT_MODE :: bool
  DISCORD_BOT_TOKEN :: string
  DISCORD_CHANNEL_ID :: string
  KEEPALIVE :: bool
  KEEPALIVE_PORT :: int
  ONLY_ONLINE :: bool
  ONLY_GAMES :: "string list"

section \<open>Notify logic: \<^verbatim>\<open>should_notify\<close>\<close>

text \<open>The four locals computed at the top of \<^verbatim>\<open>should_notify\<close>, in the source's order.\<close>

definition prev_state :: "jval \<Rightarrow> int result" where
  "prev_state prev =
     (if py_bool prev then bnd (py_get prev ''personastate'' (JInt 0)) py_int else Inr 0)"

definition curr_state :: "jval \<Rightarrow> int result" where
  "curr_state cur = bnd (py_get cur ''personastate'' (JInt 0)) py_int"

definition prev_in_game :: "jval \<Rightarrow> bool result" where
  "prev_in_game prev =
     (if py_bool prev then bnd (py_get prev ''in_game'' JNull) (\<lambda>v. Inr (py_bool v))
      else Inr False)"

definition curr_in_game :: "jval \<Rightarrow> bool result" where
  "curr_in_game cur = bnd (py_get cur ''in_game'' JNull) (\<lambda>v. Inr (py_bool v))"

text \<open>\<^verbatim>\<open>game_name = (curr.get("game") or "").lower()\<close>\<close>

definition game_name :: "jval \<Rightarrow> string result" where
  "game_name cur =
     bnd (py_get cur ''game'' JNull) (\<lambda>g. py_lower (if py_bool g then g else JStr []))"

text \<open>
  The first filter block of the source (\<^verbatim>\<open>if curr_in_game and ONLY_GAMES:\<close>) ends in
  \<^verbatim>\<open>pass\<close>; all it can do is raise when the game is not a string.
\<close>

definition should_notify :: "config \<Rightarrow> jval \<Rightarrow> jval \<Rightarrow> (bool \<times> string) result" where
  "should_notify cfg prev cur =
     bnd (prev_state prev) (\<lambda>prev_st.
     bnd (curr_state cur) (\<lambda>curr_st.
     bnd (prev_in_game prev) (\<lambda>prev_ig.
     bnd (curr_in_game cur) (\<lambda>curr_ig.
     bnd (if curr_ig \<and> ONLY_GAMES cfg \<noteq> []
          then bnd (game_name cur) (\<lambda>name. Inr ())
          else Inr ()) (\<lambda>_.
       if prev_st = 0 \<and> curr_st > 0 then
         (if ONLY_GAMES cfg \<noteq> [] then
            (if ONLY_ONLINE cfg then Inr (False, '''') else Inr (True, ''came online''))
          else Inr (True, ''came online''))
       else if \<not> prev_ig \<and> curr_ig then
         bnd (if ONLY_GAMES cfg \<noteq> []
              then bnd (game_name cur)
                     (\<lambda>name. Inr (name \<noteq> [] \<and> name \<notin> set (ONLY_GAMES cfg)))
              else Inr False) (\<lambda>filtered_out.
           if filtered_out then Inr (False, '''')
           else if ONLY_ONLINE cfg then Inr (False, '''')
           else Inr (True, ''started playing''))
       else Inr (False, ''''))))))"

text \<open>
  What the detector needs of a snapshot for it to return rather than raise: a dictionary
  whose \<^verbatim>\<open>personastate\<close>, when present, is an integer and whose \<^verbatim>\<open>game\<close>, when present,
  is a string or \<^verbatim>\<open>None\<close>. The empty dictionary (no previous status) is one.
\<close>

fun int_or_absent :: "jval option \<Rightarrow> bool" where
  "int_or_absent None = True"
| "int_or_absent (Some (JInt n)) = True"
| "int_or_absent (Some _) = False"

fun str_or_absent :: "jval option \<Rightarrow> bool" where
  "str_or_absent None = True"
| "str_or_absent (Some JNull) = True"
| "str_or_absent (Some (JStr g)) = True"
| "str_or_absent (Some _) = False"

fun snapshot :: "jval \<Rightarrow> bool" where
  "snapshot (JDict kvs) =
     (int_or_absent (map_of kvs ''personastate'') \<and> str_or_absent (map_of kvs ''game''))"
| "snapshot _ = False"

section \<open>Steam: \<^verbatim>\<open>fetch_steam_status\<close>\<close>

definition PERSONA_MAP :: "(int \<times> string) list" where
  "PERSONA_MAP = [(0, ''offline''), (1, ''online''), (2, ''busy''), (3, ''away''),
                  (4, ''snooze''), (5, ''looking to trade''), (6, ''looking to play'')]"

text \<open>
  The second half of \<^verbatim>\<open>fetch_steam_status\<close>, after \<^verbatim>\<open>p = players[0]\<close>: the snapshot
  built from the player record \<open>p\<close>. \<open>now\<close> is \<^verbatim>\<open>int(time.time())\<close>. The record has the
  method \<^verbatim>\<open>get\<close> only when it is a dictionary, so the first read raises on anything else.
\<close>

definition player_status :: "jval \<Rightarrow> int \<Rightarrow> jval result" where
  "player_status p now =
     bnd (bnd (py_get p ''personastate'' (JInt 0)) py_int) (\<lambda>personastate.
     let state_label =
           (case map_of PERSONA_MAP personastate of
              None \<Rightarrow> ''unknown('' @ show_int personastate @ '')''
            | Some label \<Rightarrow> label)
     in
     (case p of
        JDict kvs \<Rightarrow>
          Inr (JDict
            [(''name'', case map_of kvs ''personaname'' of None \<Rightarrow> JStr ''Friend'' | Some v \<Rightarrow> v),
             (''state'', JStr state_label),
             (''personastate'', JInt personastate),
             (''in_game'', JBool (map_of kvs ''gameextrainfo'' \<noteq> None)),
             (''game'', case map_of kvs ''gameextrainfo'' of None \<Rightarrow> JNull | Some v \<Rightarrow> v),
             (''avatar'', case map_of kvs ''avatarfull'' of None \<Rightarrow> JNull | Some v \<Rightarrow> v),
             (''profile_url'', case map_of kvs ''profileurl'' of None \<Rightarrow> JNull | Some v \<Rightarrow> v),
             (''timestamp'', JInt now)])
      | _ \<Rightarrow> Inl AttributeError))"

text \<open>
  The answer to \<^verbatim>\<open>requests.get\<close> is given from outside: an exception, or a status code
  with the decoded body (\<open>None\<close> when \<^verbatim>\<open>r.json()\<close> cannot decode it). \<^verbatim>\<open>raise_for_status\<close>
  raises for the codes 400 to 599.
\<close>

type_synonym steam_reply = "(int \<times> jval option) result"

definition fetch_steam_status :: "steam_reply \<Rightarrow> int \<Rightarrow> jval result" where
  "fetch_steam_status reply now =
     bnd reply (\<lambda>(status_code, body).
     if 400 \<le> status_code \<and> status_code < 600 then Inl HTTPError
     else
     bnd (case body of None \<Rightarrow> Inl JSONDecodeError | Some j \<Rightarrow> Inr j) (\<lambda>j.
     bnd (py_get j ''response'' (JDict [])) (\<lambda>response.
     bnd (py_get response ''players'' (JList [])) (\<lambda>players.
     if \<not> py_bool players then Inl RuntimeError
     else bnd (py_first players) (\<lambda>p. player_status p now)))))"

section \<open>Discord: the two back-ends\<close>

text \<open>A line written by \<^verbatim>\<open>print\<close>; an exception printed after a tag keeps its value.\<close>

datatype stdout_line = Line string | Error_line string error

record post_request =
  url :: string
  headers :: "(string \<times> string) list"
  json :: jval

text \<open>The answer to \<^verbatim>\<open>requests.post\<close>: an exception, or \<^verbatim>\<open>(r.status_code, r.text)\<close>.\<close>

type_synonym discord = "post_request \<Rightarrow> (int \<times> string) result"

definition mention_prefix :: "config \<Rightarrow> string" where
  "mention_prefix cfg =
     (if DISCORD_USER_ID cfg \<noteq> [] then ''<@'' @ DISCORD_USER_ID cfg @ ''> '' else [])"

text \<open>The body built in \<^verbatim>\<open>send_discord_webhook\<close> (\<^verbatim>\<open>title\<close>, \<^verbatim>\<open>desc\<close>, \<^verbatim>\<open>payload\<close>).\<close>

definition webhook_payload :: "config \<Rightarrow> jval \<Rightarrow> string \<Rightarrow> jval result" where
  "webhook_payload cfg cur reason =
     bnd (py_item cur ''name'') (\<lambda>name.
     let title = py_str name @ '' '' @ reason @ ''!'' in
     bnd (py_item cur ''state'') (\<lambda>state.
     bnd (py_item cur ''in_game'') (\<lambda>in_game.
     bnd (if py_bool in_game then py_get cur ''game'' JNull else Inr in_game) (\<lambda>has_game.
     bnd (if py_bool has_game
          then bnd (py_item cur ''game'')
                 (\<lambda>game. Inr (''Game: **'' @ py_str game @ ''**'' @ [CHR 0x0A]))
          else Inr []) (\<lambda>game_line.
     bnd (py_get cur ''profile_url'' JNull) (\<lambda>has_profile.
     bnd (if py_bool has_profile
          then bnd (py_item cur ''profile_url'')
                 (\<lambda>profile. Inr (''Profile: '' @ py_str profile @ [CHR 0x0A]))
          else Inr []) (\<lambda>profile_line.
     let desc = ''Status: **'' @ py_str state @ ''**'' @ [CHR 0x0A] @ game_line @ profile_line in
     bnd (py_get cur ''avatar'' (JStr [])) (\<lambda>avatar.
     Inr (JDict
       [(''content'', JStr (mention_prefix cfg @ ''Steam update:'')),
        (''embeds'', JList [JDict [(''title'', JStr title), (''description'', JStr desc),
                                   (''thumbnail'', JDict [(''url'', avatar)])]]),
        (''allowed_mentions'', JDict [(''parse'', JList [JStr ''users''])])])))))))))"

definition send_discord_webhook :: "config \<Rightarrow> discord \<Rightarrow> jval \<Rightarrow> string \<Rightarrow> stdout_line list result" where
  "send_discord_webhook cfg post cur reason =
     (if DISCORD_WEBHOOK_URL cfg = []
      then Inr [Line ''[warn] No DISCORD_WEBHOOK_URL provided; skipping notify.'']
      else
        bnd (webhook_payload cfg cur reason) (\<lambda>payload.
        bnd (post \<lparr>url = DISCORD_WEBHOOK_URL cfg, headers = [], json = payload\<rparr>)
          (\<lambda>(status_code, rtext).
        if status_code \<ge> 300
        then Inr [Line (''[error] Webhook failed: '' @ show_int status_code @ '' '' @ rtext)]
        else Inr [])))"

text \<open>The body built in \<^verbatim>\<open>send_discord_bot\<close> (\<^verbatim>\<open>title\<close>, \<^verbatim>\<open>desc\<close>, \<^verbatim>\<open>json_payload\<close>).\<close>

definition bot_payload :: "config \<Rightarrow> jval \<Rightarrow> string \<Rightarrow> jval result" where
  "bot_payload cfg cur reason =
     bnd (py_item cur ''name'') (\<lambda>name.
     let title = py_str name @ '' '' @ reason @ ''!'' in
     bnd (py_item cur ''state'') (\<lambda>state.
     bnd (py_item cur ''in_game'') (\<lambda>in_game.
     bnd (if py_bool in_game then py_get cur ''game'' JNull else Inr in_game) (\<lambda>has_game.
     bnd (if py_bool has_game
          then bnd (py_item cur ''game'')
                 (\<lambda>game. Inr (''Game: **'' @ py_str game @ ''**'' @ [CHR 0x0A]))
          else Inr []) (\<lambda>game_line.
     bnd (py_get cur ''profile_url'' JNull) (\<lambda>has_profile.
     bnd (if py_bool has_profile
          then bnd (py_item cur ''profile_url'')
                 (\<lambda>profile. Inr (''Profile: '' @ py_str profile @ [CHR 0x0A]))
          else Inr []) (\<lambda>profile_line.
     let desc = ''Status: **'' @ py_str state @ ''**'' @ [CHR 0x0A] @ game_line @ profile_line in
     bnd (py_get cur ''avatar'' (JStr [])) (\<lambda>avatar.
     Inr (JDict
       [(''content'', JStr (mention_prefix cfg @ ''Steam update:'')),
        (''embeds'', JList [JDict [(''title'', JStr title), (''description'', JStr desc),
                                   (''thumbnail'', JDict [(''url'', avatar)])]]),
        (''allowed_mentions'', JDict [(''parse'', JList [JStr ''users''])])])))))))))"

definition send_discord_bot :: "config \<Rightarrow> discord \<Rightarrow> jval \<Rightarrow> string \<Rightarrow> stdout_line list result" where
  "send_discord_bot cfg post cur reason =
     (if \<not> (DISCORD_BOT_TOKEN cfg \<noteq> [] \<and> DISCORD_CHANNEL_ID cfg \<noteq> [])
      then Inr [Line ''[warn] BOT_MODE enabled but token/channel missing; skipping notify.'']
      else
        bnd (bot_payload cfg cur reason) (\<lambda>json_payload.
        bnd (post \<lparr>url = ''https://discord.com/api/v10/channels/'' @ DISCORD_CHANNEL_ID cfg
                         @ ''/messages'',
                   headers = [(''Authorization'', ''Bot '' @ DISCORD_BOT_TOKEN cfg)],
                   json = json_payload\<rparr>)
          (\<lambda>(status_code, rtext).
        if status_code \<ge> 300
        then Inr [Line (''[error] Bot send failed: '' @ show_int status_code @ '' '' @ rtext)]
        else Inr [])))"

text \<open>The choice of back-end, written twice in \<^verbatim>\<open>main\<close> (\<^verbatim>\<open>if BOT_MODE: ... else: ...\<close>).\<close>

definition send_discord :: "config \<Rightarrow> discord \<Rightarrow> jval \<Rightarrow> string \<Rightarrow> stdout_line list result" where
  "send_discord cfg post cur reason =
     (if BOT_MODE cfg then send_discord_bot cfg post cur reason
      else send_discord_webhook cfg post cur reason)"

section \<open>Persistence: \<^verbatim>\<open>load_last_status\<close>, \<^verbatim>\<open>save_last_status\<close>\<close>

text \<open>
  \<^verbatim>\<open>json.dump\<close> and \<^verbatim>\<open>json.load\<close> belong to Python's library. They are parameters of the
  model: \<open>dumps\<close> gives the text written for a value, \<open>loads\<close> the value decoded from a
  text, or \<open>None\<close> where \<^verbatim>\<open>json.load\<close> raises. The type \<open>'t\<close> is the type of file texts.
\<close>

record 't json_codec =
  dumps :: "jval \<Rightarrow> 't"
  loads :: "'t \<Rightarrow> jval option"

text \<open>
  The file \<^verbatim>\<open>.status.json\<close>: its text when it exists, whether \<^verbatim>\<open>open(..., "w")\<close> succeeds
  and whether \<^verbatim>\<open>open(..., "r")\<close> with the read succeeds. A write that fails after the file
  was truncated is not modelled.
\<close>

record 't fsys =
  status_file :: "'t option"
  writable :: bool
  readable :: bool

definition load_last_status :: "'t json_codec \<Rightarrow> 't fsys \<Rightarrow> jval" where
  "load_last_status J fs =
     (case status_file fs of
        None \<Rightarrow> JDict []
      | Some txt \<Rightarrow>
          (if readable fs then (case loads J txt of None \<Rightarrow> JDict [] | Some v \<Rightarrow> v)
           else JDict []))"

definition save_last_status :: "'t json_codec \<Rightarrow> 't fsys \<Rightarrow> jval \<Rightarrow> 't fsys" where
  "save_last_status J fs data =
     (if writable fs then fs\<lparr>status_file := Some (dumps J data)\<rparr> else fs)"

section \<open>Main loop\<close>

text \<open>What one pass of the loop gets from outside.\<close>

record tick_env =
  steam :: steam_reply
  clock :: int
  discord :: discord

record 't loop_state =
  state :: jval
  disk :: "'t fsys"
  out :: "stdout_line list"

text \<open>
  The body of \<^verbatim>\<open>while not _shutdown\<close>: the \<^verbatim>\<open>try\<close> block and its two handlers. An
  exception anywhere in the block leaves \<^verbatim>\<open>state\<close> and the file as they were.
\<close>

definition tick :: "'t json_codec \<Rightarrow> config \<Rightarrow> tick_env \<Rightarrow> 't loop_state \<Rightarrow> 't loop_state" where
  "tick J cfg env st =
     (case
        bnd (fetch_steam_status (steam env) (clock env)) (\<lambda>cur.
        bnd (should_notify cfg (state st) cur) (\<lambda>(notify, reason).
        if notify then
          bnd (send_discord cfg (discord env) cur reason) (\<lambda>printed.
          Inr (st\<lparr>state := cur, disk := save_last_status J (disk st) cur, out := out st @ printed\<rparr>))
        else Inr st))
      of
        Inl e \<Rightarrow>
          st\<lparr>out := out st @ [if e = HTTPError then Error_line ''[error] HTTP:'' e
                                else Error_line ''[error]'' e]\<rparr>
      | Inr st' \<Rightarrow> st')"

text \<open>
  The loop runs one pass for each environment of the list: the passes made before the
  shutdown flag is seen set.
\<close>

fun main_loop :: "'t json_codec \<Rightarrow> config \<Rightarrow> tick_env list \<Rightarrow> 't loop_state \<Rightarrow> 't loop_state" where
  "main_loop J cfg [] st = st"
| "main_loop J cfg (env # envs) st = main_loop J cfg envs (tick J cfg env st)"

record 't world =
  startup_clock :: int
  startup_discord :: discord
  files :: "'t fsys"
  ticks :: "tick_env list"

definition startup_message :: "int \<Rightarrow> jval" where
  "startup_message now =
     JDict [(''name'', JStr ''Bot''), (''state'', JStr ''startup''), (''personastate'', JInt 1),
            (''in_game'', JBool False), (''game'', JNull), (''avatar'', JStr []),
            (''profile_url'', JStr []), (''timestamp'', JInt now)]"

definition startup_reason :: string where
  "startup_reason = ''is now online '' @ [CHR 0xE2, CHR 0x9C, CHR 0x85]"

text \<open>
  \<^verbatim>\<open>main\<close>: \<open>Inl (SystemExit msg)\<close> is the exit at validation, another \<open>Inl\<close> an exception
  of the startup send (outside the loop's \<^verbatim>\<open>try\<close>), \<open>Inr\<close> the state when the loop ends.
  Of the keep-alive server only the printed line is kept, and the sleep between two passes
  is left out: neither touches the status.
\<close>

definition main :: "'t json_codec \<Rightarrow> config \<Rightarrow> 't world \<Rightarrow> 't loop_state result" where
  "main J cfg w =
     (if \<not> (STEAM_API_KEY cfg \<noteq> [] \<and> STEAM_FRIEND_ID64 cfg \<noteq> [])
      then Inl (SystemExit
        ''Please set STEAM_API_KEY and STEAM_FRIEND_ID64 as env vars (or in .env locally).'')
      else if \<not> BOT_MODE cfg \<and> DISCORD_WEBHOOK_URL cfg = []
      then Inl (SystemExit
        ''Provide DISCORD_WEBHOOK_URL (webhook mode) or set BOT_MODE=true with bot token+channel.'')
      else
        let banner =
              (if KEEPALIVE cfg
               then [Line (''[keepalive] HTTP server on http://0.0.0.0:''
                           @ show_int (KEEPALIVE_PORT cfg) @ ''/'')]
               else [])
        in
        bnd (send_discord cfg (startup_discord w) (startup_message (startup_clock w)) startup_reason)
          (\<lambda>printed.
        Inr (main_loop J cfg (ticks w)
               \<lparr>state = load_last_status J (files w), disk = files w,
                out = banner @ printed
                  @ [Line (''Steam '' @ [CHR 0xE2, CHR 0x86, CHR 0x92]
                           @ '' Discord notifier running. Poll interval: ''
                           @ show_int (POLL_SECONDS cfg) @ '' seconds'')]\<rparr>)))"

section \<open>The message shape of the specification\<close>

text \<open>
  The message both back-ends are specified to build: the content line with the optional
  mention, one embed with title, description lines and thumbnail, and mentions allowed for
  users only. The arguments are the fields of the snapshot.
\<close>

definition message_shape ::
  "string \<Rightarrow> jval \<Rightarrow> jval \<Rightarrow> jval \<Rightarrow> jval \<Rightarrow> jval \<Rightarrow> jval \<Rightarrow> string \<Rightarrow> jval" where
  "message_shape user_id name state_label in_game game profile_url avatar_url reason =
     JDict
       [(''content'',
           JStr ((if user_id \<noteq> [] then ''<@'' @ user_id @ ''> '' else []) @ ''Steam update:'')),
        (''embeds'', JList [JDict
           [(''title'', JStr (py_str name @ '' '' @ reason @ ''!'')),
            (''description'', JStr
               (''Status: **'' @ py_str state_label @ ''**'' @ [CHR 0x0A]
                @ (if py_bool in_game \<and> py_bool game
                   then ''Game: **'' @ py_str game @ ''**'' @ [CHR 0x0A] else [])
                @ (if py_bool profile_url
                   then ''Profile: '' @ py_str profile_url @ [CHR 0x0A] else []))),
            (''thumbnail'', JDict [(''url'', avatar_url)])]]),
        (''allowed_mentions'', JDict [(''parse'', JList [JStr ''users''])])]"

definition field :: "(string \<times> jval) list \<Rightarrow> string \<Rightarrow> jval \<Rightarrow> jval" where
  "field kvs k dflt = (case map_of kvs k of None \<Rightarrow> dflt | Some v \<Rightarrow> v)"

section \<open>Concrete runs\<close>

text \<open>A codec whose file texts are the documents themselves.\<close>

definition plain_codec :: "jval json_codec" where
  "plain_codec = \<lparr>dumps = (\<lambda>v. v), loads = (\<lambda>t. Some t)\<rparr>"

definition webhook_config :: config where
  "webhook_config =
     \<lparr>STEAM_API_KEY = ''key'', STEAM_FRIEND_ID64 = ''76561198000000000'',
      DISCORD_WEBHOOK_URL = ''https://discord.com/api/webhooks/1/abc'', DISCORD_USER_ID = [],
      POLL_SECONDS = 60, BOT_MODE = False, DISCORD_BOT_TOKEN = [], DISCORD_CHANNEL_ID = [],
      KEEPALIVE = False, KEEPALIVE_PORT = 3000, ONLY_ONLINE = False, ONLY_GAMES = []\<rparr>"

text \<open>Bot mode chosen, token and channel left unset.\<close>

definition bot_config_no_token :: config where
  "bot_config_no_token =
     \<lparr>STEAM_API_KEY = ''key'', STEAM_FRIEND_ID64 = ''76561198000000000'',
      DISCORD_WEBHOOK_URL = [], DISCORD_USER_ID = [],
      POLL_SECONDS = 60, BOT_MODE = True, DISCORD_BOT_TOKEN = [], DISCORD_CHANNEL_ID = [],
      KEEPALIVE = False, KEEPALIVE_PORT = 3000, ONLY_ONLINE = False, ONLY_GAMES = []\<rparr>"

text \<open>Steam answers 200 with one player, online and not in a game.\<close>

definition online_reply :: steam_reply where
  "online_reply =
     Inr (200, Some (JDict [(''response'', JDict [(''players'', JList
       [JDict [(''personaname'', JStr ''A''), (''personastate'', JInt 1)]])])]))"

definition online_snapshot :: jval where
  "online_snapshot =
     JDict [(''name'', JStr ''A''), (''state'', JStr ''online''), (''personastate'', JInt 1),
            (''in_game'', JBool False), (''game'', JNull), (''avatar'', JNull),
            (''profile_url'', JNull), (''timestamp'', JInt 1700000000)]"

definition playing_snapshot :: jval where
  "playing_snapshot =
     JDict [(''name'', JStr ''A''), (''state'', JStr ''online''), (''personastate'', JInt 1),
            (''in_game'', JBool True), (''game'', JStr ''Dota 2'')]"

text \<open>A player record whose game title is the empty string, and its snapshot.\<close>

definition untitled_player :: jval where
  "untitled_player = JDict [(''personastate'', JInt 1), (''gameextrainfo'', JStr [])]"

definition untitled_snapshot :: jval where
  "untitled_snapshot =
     JDict [(''name'', JStr ''Friend''), (''state'', JStr ''online''), (''personastate'', JInt 1),
            (''in_game'', JBool True), (''game'', JStr []), (''avatar'', JNull),
            (''profile_url'', JNull), (''timestamp'', JInt 1700000000)]"

definition idle_snapshot :: jval where
  "idle_snapshot = JDict [(''personastate'', JInt 1), (''in_game'', JBool False)]"

definition fresh_disk :: "jval fsys" where
  "fresh_disk = \<lparr>status_file = None, writable = True, readable = True\<rparr>"

definition fresh_state :: "jval loop_state" where
  "fresh_state = \<lparr>state = JDict [], disk = fresh_disk, out = []\<rparr>"

text \<open>Discord accepts, answers 500, or the connection fails.\<close>

definition accepting_tick :: tick_env where
  "accepting_tick =
     \<lparr>steam = online_reply, clock = 1700000000, discord = (\<lambda>rq. Inr (204, []))\<rparr>"

definition failing_tick :: tick_env where
  "failing_tick =
     \<lparr>steam = online_reply, clock = 1700000000,
      discord = (\<lambda>rq. Inr (500, ''Internal Server Error''))\<rparr>"

definition raising_tick :: tick_env where
  "raising_tick =
     \<lparr>steam = online_reply, clock = 1700000000, discord = (\<lambda>rq. Inl RequestException)\<rparr>"

text \<open>Steam itself answers 503.\<close>

definition steam_down_tick :: tick_env where
  "steam_down_tick =
     \<lparr>steam = Inr (503, None), clock = 1700000000, discord = (\<lambda>rq. Inr (204, []))\<rparr>"

definition one_tick_world :: "jval world" where
  "one_tick_world =
     \<lparr>startup_clock = 1700000000, startup_discord = (\<lambda>rq. Inr (204, [])),
      files = fresh_disk, ticks = [accepting_tick]\<rparr>"

section \<open>Basic facts\<close>

lemma bnd_simps [simp]: "bnd (Inl e) f = Inl e" "bnd (Inr v) f = f v"
  by (simp_all add: bnd_def)

lemma bnd_Inr_iff: "bnd m f = Inr y \<longleftrightarrow> (\<exists>v. m = Inr v \<and> f v = Inr y)"
  by (cases m) simp_all

lemma str_lower_Nil [simp]: "str_lower g = [] \<longleftrightarrow> g = []"
  by (simp add: str_lower_def)

lemma int_or_absent_cases:
  assumes "int_or_absent v"
  obtains "v = None" | n where "v = Some (JInt n)"
  using assms by (cases v rule: int_or_absent.cases) auto

lemma str_or_absent_cases:
  assumes "str_or_absent v"
  obtains "v = None" | "v = Some JNull" | g where "v = Some (JStr g)"
  using assms by (cases v rule: str_or_absent.cases) auto

text \<open>On a snapshot none of the reads of \<^verbatim>\<open>should_notify\<close> raises.\<close>

lemma snapshot_returns:
  assumes "snapshot s"
  shows "\<exists>n b g. curr_state s = Inr n \<and> curr_in_game s = Inr b \<and> game_name s = Inr g
          \<and> prev_state s = Inr (if py_bool s then n else 0)
          \<and> prev_in_game s = Inr (py_bool s \<and> b)"
proof -
  obtain kvs where s: "s = JDict kvs" using assms by (cases s) auto
  have i: "int_or_absent (map_of kvs ''personastate'')"
    and g: "str_or_absent (map_of kvs ''game'')"
    using assms s by auto
  have 1: "\<exists>n. curr_state s = Inr n"
    using i by (rule int_or_absent_cases) (simp_all add: s curr_state_def)
  have 2: "\<exists>g. game_name s = Inr g"
    using g by (rule str_or_absent_cases) (simp_all add: s game_name_def)
  from 1 2 show ?thesis
    by (auto simp add: s curr_state_def curr_in_game_def prev_state_def prev_in_game_def)
qed

text \<open>When \<^verbatim>\<open>prev_state\<close> is computed, \<^verbatim>\<open>prev\<close> is falsy or a dictionary, so
  \<^verbatim>\<open>prev_in_game\<close> is computed too.\<close>

lemma prev_in_game_returns:
  assumes "prev_state prev = Inr n"
  shows "\<exists>b. prev_in_game prev = Inr b"
  using assms by (cases prev) (auto simp add: prev_state_def prev_in_game_def split: if_splits)

section \<open>The transition detector\<close>

text \<open>
  C1 (as amended). The claim as stated says that a current snapshot whose persona state is 0
  never produces a notification, whatever \<^verbatim>\<open>in_game\<close> is. The second rule of
  \<^verbatim>\<open>should_notify\<close> does not look at the persona state, so an offline snapshot that is in a
  game still gives "started playing". What holds: when the current persona state is 0 and
  the current snapshot is not in a game, \<^verbatim>\<open>should_notify\<close> never returns a positive
  decision, for every previous value and every filter setting; and it returns
  \<^verbatim>\<open>(False, "")\<close> whenever the previous value is a snapshot (the empty one included).
\<close>

theorem should_notify_offline:
  assumes "curr_state cur = Inr 0" and "curr_in_game cur = Inr False"
  shows "(\<forall>r. should_notify cfg prev cur \<noteq> Inr (True, r)) \<and>
         (snapshot prev \<longrightarrow> should_notify cfg prev cur = Inr (False, ''''))"
proof (intro conjI allI impI)
  fix r show "should_notify cfg prev cur \<noteq> Inr (True, r)"
    using assms by (auto simp: should_notify_def bnd_def split: sum.splits if_splits)
next
  assume t: "snapshot prev"
  obtain pn pb where p: "prev_state prev = Inr pn" "prev_in_game prev = Inr pb"
    using snapshot_returns [of prev] t by blast
  show "should_notify cfg prev cur = Inr (False, '''')"
    using assms p by (simp add: should_notify_def)
qed

theorem should_notify_offline_witness:
  "curr_state (JDict [(''personastate'', JInt 0), (''in_game'', JBool False)]) = Inr 0
   \<and> curr_in_game (JDict [(''personastate'', JInt 0), (''in_game'', JBool False)]) = Inr False
   \<and> snapshot playing_snapshot
   \<and> should_notify webhook_config playing_snapshot
        (JDict [(''personastate'', JInt 0), (''in_game'', JBool False)]) = Inr (False, '''')"
  using should_notify_offline
          [of "JDict [(''personastate'', JInt 0), (''in_game'', JBool False)]"
              webhook_config playing_snapshot]
  by (simp add: curr_state_def curr_in_game_def playing_snapshot_def)

text \<open>
  The claim C1 as stated fails: no previous status, no filters, a current snapshot with
  persona state 0 that carries a game. Rule 1 does not apply (0 is not above 0), rule 2
  does.
\<close>

theorem offline_in_game_notifies:
  "curr_state (JDict [(''personastate'', JInt 0), (''in_game'', JBool True),
                      (''game'', JStr ''Dota 2'')]) = Inr 0
   \<and> should_notify webhook_config (JDict [])
        (JDict [(''personastate'', JInt 0), (''in_game'', JBool True),
                (''game'', JStr ''Dota 2'')])
      = Inr (True, ''started playing'')"
  by (simp add: should_notify_def prev_state_def curr_state_def prev_in_game_def
        curr_in_game_def webhook_config_def)

text \<open>
  C4. When the previous persona state is 0 (a missing previous status counts as 0) and the
  current one is above 0, \<^verbatim>\<open>should_notify\<close> returns \<^verbatim>\<open>(True, "came online")\<close>, unless
  \<^verbatim>\<open>ONLY_ONLINE\<close> is set and \<^verbatim>\<open>ONLY_GAMES\<close> is not empty, where it returns \<^verbatim>\<open>(False, "")\<close>.
  Whether the current snapshot is in a game plays no part: rule 1 comes first.
\<close>

theorem should_notify_came_online:
  assumes "prev_state prev = Inr 0" and "curr_state cur = Inr n" and "0 < n"
    and "snapshot cur"
  shows "should_notify cfg prev cur =
           (if ONLY_ONLINE cfg \<and> ONLY_GAMES cfg \<noteq> [] then Inr (False, '''')
            else Inr (True, ''came online''))"
proof -
  obtain pb where p: "prev_in_game prev = Inr pb"
    using prev_in_game_returns [OF assms(1)] by blast
  obtain b g where c: "curr_in_game cur = Inr b" "game_name cur = Inr g"
    using snapshot_returns [OF assms(4)] by blast
  show ?thesis using assms p c by (simp add: should_notify_def)
qed

theorem should_notify_came_online_witness:
  "prev_state (JDict []) = Inr 0 \<and> curr_state playing_snapshot = Inr 1 \<and> (0::int) < 1
   \<and> snapshot playing_snapshot
   \<and> should_notify webhook_config (JDict []) playing_snapshot = Inr (True, ''came online'')
   \<and> should_notify (webhook_config\<lparr>ONLY_ONLINE := True, ONLY_GAMES := [''x'']\<rparr>) (JDict [])
        playing_snapshot = Inr (False, '''')"
  using should_notify_came_online [of "JDict []" playing_snapshot 1 webhook_config]
    should_notify_came_online [of "JDict []" playing_snapshot 1
      "webhook_config\<lparr>ONLY_ONLINE := True, ONLY_GAMES := [''x'']\<rparr>"]
  by (simp add: prev_state_def curr_state_def playing_snapshot_def webhook_config_def)



text \<open>
  C7. With no previous status (the empty dictionary that \<^verbatim>\<open>load_last_status\<close> gives),
  \<^verbatim>\<open>should_notify\<close> decides as it does for a previous snapshot with persona state 0 and
  \<^verbatim>\<open>in_game\<close> false, for every current value. In particular, without filters, a current
  snapshot with persona state 3 gives \<^verbatim>\<open>(True, "came online")\<close>.
\<close>

theorem should_notify_absent_prev:
  "should_notify cfg (JDict []) cur
     = should_notify cfg (JDict [(''personastate'', JInt 0), (''in_game'', JBool False)]) cur
   \<and> should_notify (cfg\<lparr>ONLY_ONLINE := False, ONLY_GAMES := []\<rparr>) (JDict [])
        (JDict ((''personastate'', JInt 3) # rest)) = Inr (True, ''came online'')"
  by (simp add: should_notify_def prev_state_def prev_in_game_def curr_state_def
        curr_in_game_def split: option.splits)

theorem should_notify_absent_prev_witness:
  "should_notify webhook_config (JDict []) playing_snapshot
     = should_notify webhook_config
         (JDict [(''personastate'', JInt 0), (''in_game'', JBool False)]) playing_snapshot
   \<and> should_notify webhook_config (JDict [])
        (JDict [(''personastate'', JInt 3), (''in_game'', JBool False)])
      = Inr (True, ''came online'')"
  using should_notify_absent_prev [of webhook_config playing_snapshot "[(''in_game'', JBool False)]"]
  by (simp add: webhook_config_def)

text \<open>
  C10. When the current snapshot is in a game but its title is missing, \<^verbatim>\<open>None\<close> or the
  empty string, the game filter lets it through: for a previous snapshot that is not in a
  game and has the same persona state, \<^verbatim>\<open>should_notify\<close> returns
  \<^verbatim>\<open>(True, "started playing")\<close> whatever \<^verbatim>\<open>ONLY_GAMES\<close> holds, provided \<^verbatim>\<open>ONLY_ONLINE\<close> is off.
\<close>

theorem should_notify_empty_game_bypass:
  assumes "curr_in_game cur = Inr True"
    and "py_get cur ''game'' JNull = Inr JNull \<or> py_get cur ''game'' JNull = Inr (JStr [])"
    and "prev_in_game prev = Inr False"
    and "prev_state prev = Inr s" and "curr_state cur = Inr s"
    and "\<not> ONLY_ONLINE cfg"
  shows "should_notify cfg prev cur = Inr (True, ''started playing'')"
proof -
  have "game_name cur = Inr []"
    using assms(2) by (auto simp add: game_name_def str_lower_def)
  then show ?thesis using assms by (simp add: should_notify_def)
qed

theorem should_notify_empty_game_bypass_witness:
  "player_status untitled_player 1700000000 = Inr untitled_snapshot
   \<and> curr_in_game untitled_snapshot = Inr True
   \<and> py_get untitled_snapshot ''game'' JNull = Inr (JStr [])
   \<and> prev_in_game idle_snapshot = Inr False \<and> prev_state idle_snapshot = Inr 1
   \<and> curr_state untitled_snapshot = Inr 1
   \<and> \<not> ONLY_ONLINE (webhook_config\<lparr>ONLY_GAMES := [''csgo'']\<rparr>)
   \<and> [] \<notin> set (ONLY_GAMES (webhook_config\<lparr>ONLY_GAMES := [''csgo'']\<rparr>))
   \<and> should_notify (webhook_config\<lparr>ONLY_GAMES := [''csgo'']\<rparr>) idle_snapshot
        untitled_snapshot = Inr (True, ''started playing'')"
  using should_notify_empty_game_bypass
          [of untitled_snapshot idle_snapshot 1 "webhook_config\<lparr>ONLY_GAMES := [''csgo'']\<rparr>"]
  by (simp add: curr_in_game_def prev_in_game_def prev_state_def curr_state_def
        idle_snapshot_def untitled_snapshot_def untitled_player_def player_status_def
        PERSONA_MAP_def webhook_config_def)

section \<open>The two back-ends\<close>

lemma webhook_payload_shape:
  assumes "map_of kvs ''name'' = Some name" and "map_of kvs ''state'' = Some st"
    and "map_of kvs ''in_game'' = Some ig"
  shows "webhook_payload cfg (JDict kvs) reason =
           Inr (message_shape (DISCORD_USER_ID cfg) name st ig (field kvs ''game'' JNull)
                  (field kvs ''profile_url'' JNull) (field kvs ''avatar'' (JStr [])) reason)"
  using assms
  by (auto simp add: webhook_payload_def message_shape_def field_def mention_prefix_def Let_def
      split: option.splits)

lemma payloads_equal: "bot_payload cfg cur reason = webhook_payload cfg cur reason"
  by (simp add: webhook_payload_def bot_payload_def)

text \<open>
  C9. For every snapshot and reason the body built by the webhook back-end is the body
  built by the bot back-end (and when one raises, so does the other, with the same
  exception). On a snapshot that has \<^verbatim>\<open>name\<close>, \<^verbatim>\<open>state\<close> and \<^verbatim>\<open>in_game\<close> this body is the
  specified message: the content with the mention prefix, one embed with the title
  \<^verbatim>\<open>"{name} {reason}!"\<close>, the status line, the game line only when in a game with a
  non-empty title, the profile line only when a profile is there, the thumbnail, and
  mentions allowed for users.
\<close>

theorem backends_build_same_body:
  "webhook_payload cfg cur reason = bot_payload cfg cur reason \<and>
   (\<forall>kvs name st ig.
      cur = JDict kvs \<and> map_of kvs ''name'' = Some name \<and> map_of kvs ''state'' = Some st
        \<and> map_of kvs ''in_game'' = Some ig \<longrightarrow>
      bot_payload cfg cur reason =
        Inr (message_shape (DISCORD_USER_ID cfg) name st ig (field kvs ''game'' JNull)
               (field kvs ''profile_url'' JNull) (field kvs ''avatar'' (JStr [])) reason))"
  by (auto simp add: payloads_equal webhook_payload_shape)

theorem backends_build_same_body_witness:
  "webhook_payload webhook_config playing_snapshot ''started playing''
     = bot_payload webhook_config playing_snapshot ''started playing''
   \<and> bot_payload webhook_config playing_snapshot ''started playing'' =
       Inr (JDict
         [(''content'', JStr ''Steam update:''),
          (''embeds'', JList [JDict
             [(''title'', JStr ''A started playing!''),
              (''description'', JStr (''Status: **online**'' @ [CHR 0x0A]
                                      @ ''Game: **Dota 2**'' @ [CHR 0x0A])),
              (''thumbnail'', JDict [(''url'', JStr [])])]]),
          (''allowed_mentions'', JDict [(''parse'', JList [JStr ''users''])])])"
proof -
  have k: "playing_snapshot = JDict
             [(''name'', JStr ''A''), (''state'', JStr ''online''), (''personastate'', JInt 1),
              (''in_game'', JBool True), (''game'', JStr ''Dota 2'')]
           \<and> map_of [(''name'', JStr ''A''), (''state'', JStr ''online''),
                      (''personastate'', JInt 1), (''in_game'', JBool True),
                      (''game'', JStr ''Dota 2'')] ''name'' = Some (JStr ''A'')
           \<and> map_of [(''name'', JStr ''A''), (''state'', JStr ''online''),
                      (''personastate'', JInt 1), (''in_game'', JBool True),
                      (''game'', JStr ''Dota 2'')] ''state'' = Some (JStr ''online'')
           \<and> map_of [(''name'', JStr ''A''), (''state'', JStr ''online''),
                      (''personastate'', JInt 1), (''in_game'', JBool True),
                      (''game'', JStr ''Dota 2'')] ''in_game'' = Some (JBool True)"
    by (simp add: playing_snapshot_def)
  from backends_build_same_body [of webhook_config playing_snapshot "''started playing''"] k
  have "webhook_payload webhook_config playing_snapshot ''started playing''
          = bot_payload webhook_config playing_snapshot ''started playing''"
    and "bot_payload webhook_config playing_snapshot ''started playing'' =
          Inr (message_shape (DISCORD_USER_ID webhook_config) (JStr ''A'') (JStr ''online'')
                 (JBool True)
                 (field [(''name'', JStr ''A''), (''state'', JStr ''online''),
                         (''personastate'', JInt 1), (''in_game'', JBool True),
                         (''game'', JStr ''Dota 2'')] ''game'' JNull)
                 (field [(''name'', JStr ''A''), (''state'', JStr ''online''),
                         (''personastate'', JInt 1), (''in_game'', JBool True),
                         (''game'', JStr ''Dota 2'')] ''profile_url'' JNull)
                 (field [(''name'', JStr ''A''), (''state'', JStr ''online''),
                         (''personastate'', JInt 1), (''in_game'', JBool True),
                         (''game'', JStr ''Dota 2'')] ''avatar'' (JStr []))
                 ''started playing'')"
    by blast+
  then show ?thesis
    by (simp add: message_shape_def field_def webhook_config_def py_str_def)
qed

section \<open>Persistence\<close>



section \<open>One pass of the loop\<close>

lemma fetch_online: "fetch_steam_status online_reply 1700000000 = Inr online_snapshot"
  by (simp add: fetch_steam_status_def player_status_def online_reply_def online_snapshot_def
        PERSONA_MAP_def)

lemma notify_online:
  "should_notify cfg (JDict []) online_snapshot
     = (if ONLY_GAMES cfg \<noteq> [] \<and> ONLY_ONLINE cfg then Inr (False, '''')
        else Inr (True, ''came online''))"
  by (simp add: should_notify_def prev_state_def curr_state_def prev_in_game_def
      curr_in_game_def online_snapshot_def)

lemma online_payload:
  "\<exists>payload. webhook_payload cfg online_snapshot reason = Inr payload"
  by (simp add: online_snapshot_def webhook_payload_shape)

text \<open>What \<^verbatim>\<open>fetch_steam_status\<close> returns has the keys the back-ends subscript.\<close>

lemma player_status_keys:
  assumes "player_status p now = Inr cur"
  shows "\<exists>kvs name st ig. cur = JDict kvs \<and> map_of kvs ''name'' = Some name
           \<and> map_of kvs ''state'' = Some st \<and> map_of kvs ''in_game'' = Some ig"
proof (cases p)
  case (JDict kvs)
  then show ?thesis
    using assms by (auto simp add: player_status_def Let_def bnd_Inr_iff)
qed (use assms in \<open>simp_all add: player_status_def\<close>)

lemma fetch_keys:
  assumes "fetch_steam_status reply now = Inr cur"
  shows "\<exists>kvs name st ig. cur = JDict kvs \<and> map_of kvs ''name'' = Some name
           \<and> map_of kvs ''state'' = Some st \<and> map_of kvs ''in_game'' = Some ig"
proof -
  have "\<exists>p. player_status p now = Inr cur"
    using assms
    by (auto simp add: fetch_steam_status_def bnd_Inr_iff split: prod.splits if_splits)
  then show ?thesis using player_status_keys by blast
qed

lemma fetch_payload_builds:
  assumes "fetch_steam_status reply now = Inr cur"
  shows "\<exists>payload. webhook_payload cfg cur reason = Inr payload"
  using fetch_keys [OF assms] webhook_payload_shape by blast

lemma send_returns_on_status:
  assumes "webhook_payload cfg cur reason = Inr payload"
    and "if BOT_MODE cfg then DISCORD_BOT_TOKEN cfg \<noteq> [] \<and> DISCORD_CHANNEL_ID cfg \<noteq> []
         else DISCORD_WEBHOOK_URL cfg \<noteq> []"
    and "\<forall>rq. post rq = Inr (status_code, rtext)"
  shows "send_discord cfg post cur reason =
           Inr (if status_code \<ge> 300
                then [Line ((if BOT_MODE cfg then ''[error] Bot send failed: ''
                             else ''[error] Webhook failed: '')
                            @ show_int status_code @ '' '' @ rtext)]
                else [])"
  using assms
  by (auto simp add: send_discord_def send_discord_bot_def send_discord_webhook_def
      payloads_equal split: if_splits)

lemma send_raises:
  assumes "webhook_payload cfg cur reason = Inr payload"
    and "if BOT_MODE cfg then DISCORD_BOT_TOKEN cfg \<noteq> [] \<and> DISCORD_CHANNEL_ID cfg \<noteq> []
         else DISCORD_WEBHOOK_URL cfg \<noteq> []"
    and "\<forall>rq. post rq = Inl e"
  shows "send_discord cfg post cur reason = Inl e"
  using assms
  by (auto simp add: send_discord_def send_discord_bot_def send_discord_webhook_def
      payloads_equal split: if_splits)

lemma tick_notified:
  assumes "fetch_steam_status (steam env) (clock env) = Inr cur"
    and "should_notify cfg (state st) cur = Inr (True, reason)"
    and "send_discord cfg (discord env) cur reason = Inr printed"
  shows "tick J cfg env st
           = st\<lparr>state := cur, disk := save_last_status J (disk st) cur,
                out := out st @ printed\<rparr>"
  using assms by (simp add: tick_def)

lemma tick_send_raised:
  assumes "fetch_steam_status (steam env) (clock env) = Inr cur"
    and "should_notify cfg (state st) cur = Inr (True, reason)"
    and "send_discord cfg (discord env) cur reason = Inl e"
  shows "state (tick J cfg env st) = state st \<and> disk (tick J cfg env st) = disk st"
  using assms by (simp add: tick_def)

lemma tick_not_notified:
  assumes "\<forall>cur reason. fetch_steam_status (steam env) (clock env) = Inr cur
             \<longrightarrow> should_notify cfg (state st) cur \<noteq> Inr (True, reason)"
  shows "state (tick J cfg env st) = state st \<and> disk (tick J cfg env st) = disk st"
  using assms
  by (auto simp add: tick_def bnd_def split: sum.splits prod.splits)

text \<open>The passes of a run are the passes of \<open>tick\<close>, one after the other.\<close>

lemma main_loop_append:
  "main_loop J cfg (envs @ [env]) st = tick J cfg env (main_loop J cfg envs st)"
  by (induction envs arbitrary: st) simp_all

text \<open>A run in which no pass decides to notify leaves the status and the file alone.\<close>

lemma main_loop_quiet:
  assumes "\<forall>env \<in> set envs. \<forall>cur reason.
             fetch_steam_status (steam env) (clock env) = Inr cur
               \<longrightarrow> should_notify cfg (state st) cur \<noteq> Inr (True, reason)"
  shows "state (main_loop J cfg envs st) = state st \<and> disk (main_loop J cfg envs st) = disk st"
  using assms
proof (induction envs arbitrary: st)
  case Nil
  then show ?case by simp
next
  case (Cons env envs)
  have t: "state (tick J cfg env st) = state st \<and> disk (tick J cfg env st) = disk st"
    using Cons.prems by (intro tick_not_notified) simp
  have "state (main_loop J cfg envs (tick J cfg env st)) = state (tick J cfg env st)
        \<and> disk (main_loop J cfg envs (tick J cfg env st)) = disk (tick J cfg env st)"
    using Cons.prems t by (intro Cons.IH) simp
  with t show ?case by simp
qed

text \<open>
  C2 (as amended). The claim as stated says that a send answered with a status of 300 or
  more leaves the stored status and the file unchanged. The back-ends only print such an
  answer and return, and the loop does not see it. What holds: on a pass where the fetch
  succeeds, the decision is positive, the chosen back-end is configured and Discord answers
  with a status of 300 or more, the pass prints the error line, sets the stored status to
  the current snapshot and saves it, as after a successful send.
\<close>

theorem failed_send_advances_state:
  assumes "fetch_steam_status (steam env) (clock env) = Inr cur"
    and "should_notify cfg (state st) cur = Inr (True, reason)"
    and "if BOT_MODE cfg then DISCORD_BOT_TOKEN cfg \<noteq> [] \<and> DISCORD_CHANNEL_ID cfg \<noteq> []
         else DISCORD_WEBHOOK_URL cfg \<noteq> []"
    and "\<forall>rq. discord env rq = Inr (status_code, rtext)"
    and "300 \<le> status_code"
  shows "tick J cfg env st =
           st\<lparr>state := cur, disk := save_last_status J (disk st) cur,
              out := out st @ [Line ((if BOT_MODE cfg then ''[error] Bot send failed: ''
                                      else ''[error] Webhook failed: '')
                                     @ show_int status_code @ '' '' @ rtext)]\<rparr>"
proof -
  obtain payload where p: "webhook_payload cfg cur reason = Inr payload"
    using fetch_payload_builds [OF assms(1)] by blast
  have "send_discord cfg (discord env) cur reason =
          Inr [Line ((if BOT_MODE cfg then ''[error] Bot send failed: ''
                      else ''[error] Webhook failed: '')
                     @ show_int status_code @ '' '' @ rtext)]"
    using send_returns_on_status [OF p assms(3) assms(4)] assms(5) by simp
  then show ?thesis using tick_notified [OF assms(1) assms(2)] by simp
qed

theorem failed_send_advances_state_witness:
  "fetch_steam_status (steam failing_tick) (clock failing_tick) = Inr online_snapshot
   \<and> should_notify webhook_config (state fresh_state) online_snapshot
       = Inr (True, ''came online'')
   \<and> DISCORD_WEBHOOK_URL webhook_config \<noteq> []
   \<and> (\<forall>rq. discord failing_tick rq = Inr (500, ''Internal Server Error''))
   \<and> (300::int) \<le> 500
   \<and> tick plain_codec webhook_config failing_tick fresh_state =
       fresh_state\<lparr>state := online_snapshot,
         disk := save_last_status plain_codec (disk fresh_state) online_snapshot,
         out := out fresh_state @ [Line (''[error] Webhook failed: '' @ show_int 500
                                         @ '' '' @ ''Internal Server Error'')]\<rparr>"
proof -
  have f: "fetch_steam_status (steam failing_tick) (clock failing_tick) = Inr online_snapshot"
    using fetch_online by (simp add: failing_tick_def)
  have n: "should_notify webhook_config (state fresh_state) online_snapshot
             = Inr (True, ''came online'')"
    by (simp add: notify_online fresh_state_def webhook_config_def)
  have c: "if BOT_MODE webhook_config
           then DISCORD_BOT_TOKEN webhook_config \<noteq> [] \<and> DISCORD_CHANNEL_ID webhook_config \<noteq> []
           else DISCORD_WEBHOOK_URL webhook_config \<noteq> []"
    by (simp add: webhook_config_def)
  have d: "\<forall>rq. discord failing_tick rq = Inr (500, ''Internal Server Error'')"
    by (simp add: failing_tick_def)
  have s: "(300::int) \<le> 500" by simp
  from failed_send_advances_state [OF f n c d s, of plain_codec] f n c d s
  show ?thesis by (simp add: webhook_config_def)
qed

text \<open>
  The claim C2 as stated fails: no stored status, no file; Steam reports the player online,
  the webhook answers 500. After the pass the stored status is the new snapshot and the
  file holds it.
\<close>

theorem failed_send_state_changed:
  "out (tick plain_codec webhook_config failing_tick fresh_state)
     = [Line ''[error] Webhook failed: 500 Internal Server Error'']
   \<and> state fresh_state = JDict []
   \<and> state (tick plain_codec webhook_config failing_tick fresh_state) = online_snapshot
   \<and> status_file (disk fresh_state) = None
   \<and> status_file (disk (tick plain_codec webhook_config failing_tick fresh_state))
       = Some online_snapshot"
proof -
  have f: "fetch_steam_status (steam failing_tick) (clock failing_tick) = Inr online_snapshot"
    using fetch_online by (simp add: failing_tick_def)
  have n: "should_notify webhook_config (state fresh_state) online_snapshot
             = Inr (True, ''came online'')"
    by (simp add: notify_online fresh_state_def webhook_config_def)
  obtain payload where p: "webhook_payload webhook_config online_snapshot ''came online''
                             = Inr payload"
    using online_payload by blast
  have s: "send_discord webhook_config (discord failing_tick) online_snapshot ''came online''
             = Inr [Line ''[error] Webhook failed: 500 Internal Server Error'']"
    using p
    by (simp add: send_discord_def send_discord_webhook_def webhook_config_def
          failing_tick_def show_int_def show_nat.simps)
  show ?thesis
    using tick_notified [OF f n s, of plain_codec]
    by (simp add: fresh_state_def fresh_disk_def save_last_status_def plain_codec_def)
qed

text \<open>
  C3 (as amended). The claim as stated says that on every pass with a positive decision the
  stored status becomes the current snapshot. A send that raises is caught by the loop's
  handler before the assignment, so on such a pass nothing changes. What holds, for each
  pass: when the decision is positive and the send returns (whatever the status code), the
  stored status becomes exactly the current snapshot and the file is saved with it (it
  holds the written snapshot when the file is writable); when the decision is positive and
  the send raises, the stored status and the file are unchanged; and when there is no
  positive decision (the fetch fails, the detector raises, there is no transition or the
  transition is suppressed by the filters) the stored status and the file are unchanged.
\<close>

theorem tick_changes_state_only_on_notify:
  "(\<forall>cur reason printed.
      fetch_steam_status (steam env) (clock env) = Inr cur
      \<and> should_notify cfg (state st) cur = Inr (True, reason)
      \<and> send_discord cfg (discord env) cur reason = Inr printed
      \<longrightarrow> state (tick J cfg env st) = cur
          \<and> disk (tick J cfg env st) = save_last_status J (disk st) cur
          \<and> (writable (disk st)
               \<longrightarrow> status_file (disk (tick J cfg env st)) = Some (dumps J cur)))
   \<and> (\<forall>cur reason e.
      fetch_steam_status (steam env) (clock env) = Inr cur
      \<and> should_notify cfg (state st) cur = Inr (True, reason)
      \<and> send_discord cfg (discord env) cur reason = Inl e
      \<longrightarrow> state (tick J cfg env st) = state st \<and> disk (tick J cfg env st) = disk st)
   \<and> ((\<forall>cur reason. fetch_steam_status (steam env) (clock env) = Inr cur
           \<longrightarrow> should_notify cfg (state st) cur \<noteq> Inr (True, reason))
      \<longrightarrow> state (tick J cfg env st) = state st \<and> disk (tick J cfg env st) = disk st)"
proof (intro conjI allI impI)
qed (auto simp add: tick_notified tick_send_raised tick_not_notified save_last_status_def)

theorem tick_changes_state_only_on_notify_witness:
  "fetch_steam_status (steam accepting_tick) (clock accepting_tick) = Inr online_snapshot
   \<and> should_notify webhook_config (state fresh_state) online_snapshot
       = Inr (True, ''came online'')
   \<and> send_discord webhook_config (discord accepting_tick) online_snapshot ''came online''
       = Inr []
   \<and> writable (disk fresh_state)
   \<and> state (tick plain_codec webhook_config accepting_tick fresh_state) = online_snapshot
   \<and> status_file (disk (tick plain_codec webhook_config accepting_tick fresh_state))
       = Some (dumps plain_codec online_snapshot)
   \<and> fetch_steam_status (steam steam_down_tick) (clock steam_down_tick) = Inl HTTPError
   \<and> state (tick plain_codec webhook_config steam_down_tick fresh_state) = state fresh_state
   \<and> disk (tick plain_codec webhook_config steam_down_tick fresh_state) = disk fresh_state
   \<and> should_notify (webhook_config\<lparr>ONLY_ONLINE := True, ONLY_GAMES := [''x'']\<rparr>)
        (state fresh_state) online_snapshot = Inr (False, '''')
   \<and> state (tick plain_codec (webhook_config\<lparr>ONLY_ONLINE := True, ONLY_GAMES := [''x'']\<rparr>)
               accepting_tick fresh_state) = state fresh_state"
proof -
  have f: "fetch_steam_status (steam accepting_tick) (clock accepting_tick) = Inr online_snapshot"
    using fetch_online by (simp add: accepting_tick_def)
  have n: "should_notify webhook_config (state fresh_state) online_snapshot
             = Inr (True, ''came online'')"
    by (simp add: notify_online fresh_state_def webhook_config_def)
  obtain payload where p: "webhook_payload webhook_config online_snapshot ''came online''
                             = Inr payload"
    using online_payload by blast
  have s: "send_discord webhook_config (discord accepting_tick) online_snapshot ''came online''
             = Inr []"
    using p
    by (simp add: send_discord_def send_discord_webhook_def webhook_config_def
          accepting_tick_def)
  have w: "writable (disk fresh_state)"
    by (simp add: fresh_state_def fresh_disk_def)
  have d: "fetch_steam_status (steam steam_down_tick) (clock steam_down_tick) = Inl HTTPError"
    by (simp add: steam_down_tick_def fetch_steam_status_def)
  have q: "should_notify (webhook_config\<lparr>ONLY_ONLINE := True, ONLY_GAMES := [''x'']\<rparr>)
             (state fresh_state) online_snapshot = Inr (False, '''')"
    by (simp add: notify_online fresh_state_def)
  from tick_changes_state_only_on_notify [of accepting_tick webhook_config fresh_state plain_codec]
    f n s w
  have 1: "state (tick plain_codec webhook_config accepting_tick fresh_state) = online_snapshot
           \<and> status_file (disk (tick plain_codec webhook_config accepting_tick fresh_state))
               = Some (dumps plain_codec online_snapshot)"
    by blast
  from tick_changes_state_only_on_notify [of steam_down_tick webhook_config fresh_state plain_codec]
    d
  have 2: "state (tick plain_codec webhook_config steam_down_tick fresh_state) = state fresh_state
           \<and> disk (tick plain_codec webhook_config steam_down_tick fresh_state) = disk fresh_state"
    by simp
  from tick_changes_state_only_on_notify
         [of accepting_tick "webhook_config\<lparr>ONLY_ONLINE := True, ONLY_GAMES := [''x'']\<rparr>"
             fresh_state plain_codec] f q
  have 3: "state (tick plain_codec (webhook_config\<lparr>ONLY_ONLINE := True, ONLY_GAMES := [''x'']\<rparr>)
                    accepting_tick fresh_state) = state fresh_state"
    by simp
  from f n s w d q 1 2 3 show ?thesis by simp
qed

text \<open>
  The claim C3 as stated fails: no stored status; Steam reports the player online, the
  decision is \<^verbatim>\<open>(True, "came online")\<close>, and the POST to the webhook raises. The stored
  status stays the empty dictionary, which is not the current snapshot, and no file is
  written.
\<close>

theorem raising_send_keeps_state:
  "fetch_steam_status (steam raising_tick) (clock raising_tick) = Inr online_snapshot
   \<and> should_notify webhook_config (state fresh_state) online_snapshot
       = Inr (True, ''came online'')
   \<and> state (tick plain_codec webhook_config raising_tick fresh_state) = JDict []
   \<and> online_snapshot \<noteq> JDict []
   \<and> status_file (disk (tick plain_codec webhook_config raising_tick fresh_state)) = None"
proof -
  have f: "fetch_steam_status (steam raising_tick) (clock raising_tick) = Inr online_snapshot"
    using fetch_online by (simp add: raising_tick_def)
  have n: "should_notify webhook_config (state fresh_state) online_snapshot
             = Inr (True, ''came online'')"
    by (simp add: notify_online fresh_state_def webhook_config_def)
  obtain payload where p: "webhook_payload webhook_config online_snapshot ''came online''
                             = Inr payload"
    using online_payload by blast
  have s: "send_discord webhook_config (discord raising_tick) online_snapshot ''came online''
             = Inl RequestException"
    using p
    by (simp add: send_discord_def send_discord_webhook_def webhook_config_def
          raising_tick_def)
  show ?thesis
    using tick_send_raised [OF f n s, of plain_codec] f n
    by (simp add: fresh_state_def fresh_disk_def online_snapshot_def)
qed

section \<open>Startup\<close>

text \<open>
  C6 (as amended). The claim as stated says that bot mode with an empty token or channel
  exits at startup. \<^verbatim>\<open>main\<close> checks the Steam key and id, and the webhook URL in webhook
  mode only; the bot back-end has its own guard, which prints a warning and skips the
  send. What holds: \<^verbatim>\<open>main\<close> exits at validation when the Steam key or id is empty, or
  when webhook mode has an empty URL; in bot mode with the Steam key and id set and the
  token or the channel empty it does not exit: it prints the warning for the startup
  message, loads the status and runs the loop, and every send is skipped with the warning.
\<close>

theorem startup_validation:
  "(STEAM_API_KEY cfg = [] \<or> STEAM_FRIEND_ID64 cfg = []
      \<or> (\<not> BOT_MODE cfg \<and> DISCORD_WEBHOOK_URL cfg = [])
      \<longrightarrow> (\<exists>msg. main J cfg w = Inl (SystemExit msg)))
   \<and> (STEAM_API_KEY cfg \<noteq> [] \<and> STEAM_FRIEND_ID64 cfg \<noteq> [] \<and> BOT_MODE cfg
        \<and> (DISCORD_BOT_TOKEN cfg = [] \<or> DISCORD_CHANNEL_ID cfg = [])
      \<longrightarrow> (\<exists>st0. main J cfg w = Inr (main_loop J cfg (ticks w) st0)
                \<and> state st0 = load_last_status J (files w)
                \<and> Line ''[warn] BOT_MODE enabled but token/channel missing; skipping notify.''
                    \<in> set (out st0))
          \<and> (\<forall>post cur reason. send_discord cfg post cur reason =
                Inr [Line ''[warn] BOT_MODE enabled but token/channel missing; skipping notify.'']))"
  by (auto simp add: main_def send_discord_def send_discord_bot_def Let_def)

theorem startup_validation_witness:
  "DISCORD_WEBHOOK_URL (webhook_config\<lparr>DISCORD_WEBHOOK_URL := []\<rparr>) = []
   \<and> \<not> BOT_MODE (webhook_config\<lparr>DISCORD_WEBHOOK_URL := []\<rparr>)
   \<and> (\<exists>msg. main plain_codec (webhook_config\<lparr>DISCORD_WEBHOOK_URL := []\<rparr>) one_tick_world
               = Inl (SystemExit msg))
   \<and> STEAM_API_KEY bot_config_no_token \<noteq> [] \<and> STEAM_FRIEND_ID64 bot_config_no_token \<noteq> []
   \<and> BOT_MODE bot_config_no_token \<and> DISCORD_BOT_TOKEN bot_config_no_token = []
   \<and> (\<exists>st0. main plain_codec bot_config_no_token one_tick_world
               = Inr (main_loop plain_codec bot_config_no_token (ticks one_tick_world) st0))"
  using startup_validation [of "webhook_config\<lparr>DISCORD_WEBHOOK_URL := []\<rparr>"
          plain_codec one_tick_world]
    startup_validation [of bot_config_no_token plain_codec one_tick_world]
  by (auto simp add: webhook_config_def bot_config_no_token_def)

text \<open>
  The claim C6 as stated fails: bot mode, token and channel empty, Steam key and id set.
  \<^verbatim>\<open>main\<close> does not exit; it prints the warning in place of the startup message, starts
  the loop, and the one pass of this run takes the reported snapshot as the stored status
  without a message having been posted.
\<close>

theorem bot_mode_without_token_runs:
  "BOT_MODE bot_config_no_token \<and> DISCORD_BOT_TOKEN bot_config_no_token = []
   \<and> DISCORD_CHANNEL_ID bot_config_no_token = []
   \<and> main plain_codec bot_config_no_token one_tick_world =
       Inr \<lparr>state = online_snapshot,
            disk = \<lparr>status_file = Some online_snapshot, writable = True, readable = True\<rparr>,
            out = [Line ''[warn] BOT_MODE enabled but token/channel missing; skipping notify.'',
                   Line (''Steam '' @ [CHR 0xE2, CHR 0x86, CHR 0x92]
                         @ '' Discord notifier running. Poll interval: 60 seconds''),
                   Line ''[warn] BOT_MODE enabled but token/channel missing; skipping notify.'']\<rparr>"
proof -
  have f: "fetch_steam_status (steam accepting_tick) (clock accepting_tick) = Inr online_snapshot"
    using fetch_online by (simp add: accepting_tick_def)
  have n: "should_notify bot_config_no_token (JDict []) online_snapshot
             = Inr (True, ''came online'')"
    by (simp add: notify_online bot_config_no_token_def)
  have s: "\<And>post cur reason. send_discord bot_config_no_token post cur reason
             = Inr [Line ''[warn] BOT_MODE enabled but token/channel missing; skipping notify.'']"
    by (simp add: send_discord_def send_discord_bot_def bot_config_no_token_def)
  have t: "tick plain_codec bot_config_no_token accepting_tick st
             = st\<lparr>state := online_snapshot,
                  disk := save_last_status plain_codec (disk st) online_snapshot,
                  out := out st
                    @ [Line ''[warn] BOT_MODE enabled but token/channel missing; skipping notify.'']\<rparr>"
    if "state st = JDict []" for st :: "jval loop_state"
    using tick_notified [OF f _ s, of st "''came online''" plain_codec] n that by simp
  have c: "BOT_MODE bot_config_no_token \<and> DISCORD_BOT_TOKEN bot_config_no_token = []
           \<and> DISCORD_CHANNEL_ID bot_config_no_token = []
           \<and> STEAM_API_KEY bot_config_no_token \<noteq> [] \<and> STEAM_FRIEND_ID64 bot_config_no_token \<noteq> []
           \<and> \<not> KEEPALIVE bot_config_no_token \<and> POLL_SECONDS bot_config_no_token = 60"
    by (simp add: bot_config_no_token_def)
  have m: "main plain_codec bot_config_no_token one_tick_world =
             Inr (tick plain_codec bot_config_no_token accepting_tick
               \<lparr>state = JDict [], disk = fresh_disk,
                out = [Line ''[warn] BOT_MODE enabled but token/channel missing; skipping notify.'',
                       Line (''Steam '' @ [CHR 0xE2, CHR 0x86, CHR 0x92]
                             @ '' Discord notifier running. Poll interval: 60 seconds'')]\<rparr>)"
    using c
    by (simp add: main_def s one_tick_world_def load_last_status_def fresh_disk_def
          show_int_def show_nat.simps)
  have r: "tick plain_codec bot_config_no_token accepting_tick
               \<lparr>state = JDict [], disk = fresh_disk,
                out = [Line ''[warn] BOT_MODE enabled but token/channel missing; skipping notify.'',
                       Line (''Steam '' @ [CHR 0xE2, CHR 0x86, CHR 0x92]
                             @ '' Discord notifier running. Poll interval: 60 seconds'')]\<rparr>
           = \<lparr>state = online_snapshot,
              disk = \<lparr>status_file = Some online_snapshot, writable = True, readable = True\<rparr>,
              out = [Line ''[warn] BOT_MODE enabled but token/channel missing; skipping notify.'',
                     Line (''Steam '' @ [CHR 0xE2, CHR 0x86, CHR 0x92]
                           @ '' Discord notifier running. Poll interval: 60 seconds''),
                     Line ''[warn] BOT_MODE enabled but token/channel missing; skipping notify.'']\<rparr>"
    by (subst t) (simp_all add: save_last_status_def fresh_disk_def plain_codec_def)
  show ?thesis
    using c by (simp only: m r simp_thms)
qed

end
